theory Spec2Isabelle
  imports Complex_Main
begin

section \<open>JavaScript values and the JSON request bodies of the API client\<close>

text \<open>
  The numeric parameters handed to the API client are JavaScript values: a missing
  property reads as \<open>undefined\<close>, the seed of the application state is \<open>null\<close> or a
  number, and \<open>parseInt\<close> of an unreadable field is \<open>NaN\<close>. Finite numbers are
  modelled as reals; the two infinities, which \<open>parseFloat\<close> can return, are values of
  their own.
\<close>

datatype jsval = JUndefined | JNull | JNaN | JInfinity | JNegInfinity | JNum real

text \<open>
  ToBoolean: \<open>undefined\<close>, \<open>null\<close>, \<open>NaN\<close> and \<open>0\<close> are falsy; every other number,
  the infinities among them, is truthy.
\<close>

fun truthy :: "jsval \<Rightarrow> bool" where
  "truthy JUndefined = False"
| "truthy JNull = False"
| "truthy JNaN = False"
| "truthy JInfinity = True"
| "truthy JNegInfinity = True"
| "truthy (JNum r) = (r \<noteq> 0)"

text \<open>The operator \<open>a || b\<close>: the left operand when it is truthy, else the right one.\<close>

definition js_or :: "jsval \<Rightarrow> jsval \<Rightarrow> jsval" where
  "js_or a b = (if truthy a then a else b)"

text \<open>The \<open>params\<close> object of \<open>generateNew\<close> and \<open>refine\<close>, one field per property read.\<close>

record params =
  steps :: jsval
  guidanceScale :: jsval
  strength :: jsval
  seed :: jsval
  width :: jsval
  height :: jsval

text \<open>
  \<open>JSON.stringify\<close> of an object literal: a property whose value is \<open>undefined\<close> is
  left out, \<open>NaN\<close> and the infinities are written as \<open>null\<close>. The body is kept as the list of its keys and
  values, in the order of the literal.
\<close>

datatype json = JsNull | JsNum real | JsStr string

type_synonym body = "(string \<times> json) list"

fun to_json :: "jsval \<Rightarrow> json option" where
  "to_json JUndefined = None"
| "to_json JNull = Some JsNull"
| "to_json JNaN = Some JsNull"
| "to_json JInfinity = Some JsNull"
| "to_json JNegInfinity = Some JsNull"
| "to_json (JNum r) = Some (JsNum r)"

definition stringify :: "(string \<times> json option) list \<Rightarrow> body" where
  "stringify kvs =
     List.map_filter (\<lambda>(k, v). case v of None \<Rightarrow> None | Some j \<Rightarrow> Some (k, j)) kvs"

text \<open>A request as \<open>APIClient.request\<close> receives it: the endpoint, the method, the body.\<close>

record request =
  endpoint :: string
  http_method :: string
  req_body :: "body option"

text \<open>\<open>APIClient.generateNew(prompt, params)\<close>.\<close>

definition generateNew_body :: "string \<Rightarrow> params \<Rightarrow> body" where
  "generateNew_body prompt p = stringify
     [(''prompt'', Some (JsStr prompt)),
      (''steps'', to_json (js_or (steps p) (JNum 28))),
      (''guidance_scale'', to_json (js_or (guidanceScale p) (JNum 3.5))),
      (''seed'', to_json (js_or (seed p) JNull)),
      (''width'', to_json (js_or (width p) (JNum 1024))),
      (''height'', to_json (js_or (height p) (JNum 1024)))]"

definition api_generateNew :: "string \<Rightarrow> params \<Rightarrow> request" where
  "api_generateNew prompt p =
     \<lparr>endpoint = ''/generate/new'', http_method = ''POST'',
      req_body = Some (generateNew_body prompt p)\<rparr>"

text \<open>\<open>APIClient.refine(modification, params)\<close>.\<close>

definition refine_body :: "string \<Rightarrow> params \<Rightarrow> body" where
  "refine_body modification p = stringify
     [(''modification'', Some (JsStr modification)),
      (''strength'', to_json (js_or (strength p) (JNum 0.6))),
      (''steps'', to_json (js_or (steps p) (JNum 28))),
      (''guidance_scale'', to_json (js_or (guidanceScale p) (JNum 3.5)))]"

definition api_refine :: "string \<Rightarrow> params \<Rightarrow> request" where
  "api_refine modification p =
     \<lparr>endpoint = ''/generate/refine'', http_method = ''POST'',
      req_body = Some (refine_body modification p)\<rparr>"

text \<open>\<open>APIClient.clearSession()\<close>: a POST without a body.\<close>

definition api_clearSession :: request where
  "api_clearSession =
     \<lparr>endpoint = ''/session/clear'', http_method = ''POST'', req_body = None\<rparr>"

text \<open>The value of a key in the body of a request (\<open>None\<close>: the key is not sent).\<close>

definition sent_field :: "request \<Rightarrow> string \<Rightarrow> json option" where
  "sent_field r k = (case req_body r of None \<Rightarrow> None | Some b \<Rightarrow> map_of b k)"

section \<open>The application: state and handlers\<close>

text \<open>
  \<open>App.state\<close> with the parts of the page the handlers below write: the prompt input,
  the generate button, the progress overlay, and the messages shown by \<open>alert\<close>.
  \<open>'i\<close> is the type of the image objects the server returns.
\<close>

record 'i app_state =
  currentImage :: "'i option"
  history :: "'i list"
  isGenerating :: bool
  app_params :: params
  promptInput :: string
  generateBtnDisabled :: bool
  progressShown :: bool
  alerts :: "string list"







text \<open>The parameters and the state the constructor of \<open>App\<close> sets.\<close>

definition default_params :: params where
  "default_params =
     \<lparr>steps = JNum 28, guidanceScale = JNum 3.5, strength = JNum 0.6, seed = JNull,
      width = JUndefined, height = JUndefined\<rparr>"


text \<open>
  \<open>App.loadSession\<close> with \<open>App.loadHistory\<close>, once their requests have settled.
  \<open>session\<close> is \<open>None\<close> when the session request failed (nothing changes then), else the
  \<open>current_image\<close> of the answer, which may be \<open>null\<close>; a \<open>null\<close> leaves the current
  image of the application as it was. \<open>generations\<close> is \<open>None\<close> when the history request
  failed. The \<open>state.session\<close> object, kept for the status line, is left out.
\<close>

definition loadSession_settled ::
  "'i option option \<Rightarrow> 'i list option \<Rightarrow> 'i app_state \<Rightarrow> 'i app_state" where
  "loadSession_settled session generations st =
     (case session of
        None \<Rightarrow> st
      | Some current_image \<Rightarrow>
          let st1 = (case current_image of
                       None \<Rightarrow> st
                     | Some img \<Rightarrow> st\<lparr>currentImage := Some img\<rparr>)
          in (case generations of None \<Rightarrow> st1 | Some gens \<Rightarrow> st1\<lparr>history := gens\<rparr>))"


text \<open>
  \<open>App.handleGenerationComplete\<close> and \<open>App.handleGenerationError\<close>. The reload of the
  session that the first one starts is a request of its own and is not part of it.
\<close>

definition handleGenerationComplete :: "'i app_state \<Rightarrow> 'i app_state" where
  "handleGenerationComplete st =
     st\<lparr>isGenerating := False, generateBtnDisabled := False, progressShown := False,
        promptInput := []\<rparr>"

definition handleGenerationError :: "string \<Rightarrow> 'i app_state \<Rightarrow> 'i app_state" where
  "handleGenerationError msg st =
     st\<lparr>isGenerating := False, generateBtnDisabled := False, progressShown := False,
        alerts := alerts st @ [''Generation failed: '' @ msg]\<rparr>"

text \<open>
  The rest of \<open>handleGenerate\<close>, once the request has settled: a result with an
  \<open>image_url\<close> completes the generation, a result without one changes nothing, an
  exception of the API client is reported.
\<close>

datatype response = Result bool | Failure string

fun handleGenerate_settled :: "response \<Rightarrow> 'i app_state \<Rightarrow> 'i app_state" where
  "handleGenerate_settled (Result has_image_url) st =
     (if has_image_url then handleGenerationComplete st else st)"
| "handleGenerate_settled (Failure msg) st = handleGenerationError msg st"

text \<open>
  \<open>App.handleClear\<close>: \<open>confirmed\<close> is the answer to \<open>confirm\<close>, \<open>ok\<close> whether the clear
  request succeeded. The handler returns nothing; the response of the server is dropped.
\<close>

definition handleClear :: "bool \<Rightarrow> bool \<Rightarrow> 'i app_state \<Rightarrow> 'i app_state \<times> request option" where
  "handleClear confirmed ok st =
     (if \<not> confirmed then (st, None)
      else if ok then (st\<lparr>currentImage := None, history := []\<rparr>, Some api_clearSession)
      else (st\<lparr>alerts := alerts st @ [''Failed to clear session'']\<rparr>, Some api_clearSession))"


section \<open>The WebSocket handler: callbacks\<close>

text \<open>
  A callback gets the data of the event and may change the world around it (\<open>'w\<close>: the
  page, the application state); \<open>Some e\<close> is the exception it throws. Callbacks are
  compared by reference in \<open>off\<close>, so each carries an identity.
\<close>

record ('d, 'w) callback =
  cb_ref :: nat
  cb_run :: "'d \<Rightarrow> 'w \<Rightarrow> string option \<times> 'w"

text \<open>
  What \<open>this.callbacks[event]\<close> reads: the array of a key the constructor created,
  \<open>undefined\<close> for a name the object does not have, and for a name it inherits from
  \<open>Object.prototype\<close> the inherited value, which is truthy and is not an array.
\<close>

datatype ('d, 'w) slot = Undefined | Inherited | Callbacks "('d, 'w) callback list"

type_synonym ('d, 'w) callbacks = "string \<Rightarrow> ('d, 'w) slot"

definition inherited_names :: "string list" where
  "inherited_names =
     [''constructor'', ''toString'', ''toLocaleString'', ''valueOf'', ''hasOwnProperty'',
      ''isPrototypeOf'', ''propertyIsEnumerable'', ''__proto__'', ''__defineGetter__'',
      ''__defineSetter__'', ''__lookupGetter__'', ''__lookupSetter__'']"

text \<open>\<open>this.callbacks\<close> as the constructor leaves it.\<close>

definition no_callbacks :: "('d, 'w) callbacks" where
  "no_callbacks ev =
     (if ev \<in> set [''progress'', ''complete'', ''error'', ''sessionUpdate'', ''connected'',
                    ''disconnected'']
      then Callbacks []
      else if ev \<in> set inherited_names then Inherited else Undefined)"

text \<open>
  \<open>WSHandler.on\<close> and \<open>WSHandler.off\<close>. On an inherited name the guard passes and the
  call of \<open>push\<close> or \<open>filter\<close> on a value that has none throws a TypeError (\<open>Inl\<close>).
\<close>

definition on ::
  "string \<Rightarrow> ('d, 'w) callback \<Rightarrow> ('d, 'w) callbacks \<Rightarrow> string + ('d, 'w) callbacks" where
  "on ev cb tbl =
     (case tbl ev of
        Undefined \<Rightarrow> Inr tbl
      | Inherited \<Rightarrow> Inl ''TypeError''
      | Callbacks cbs \<Rightarrow> Inr (tbl(ev := Callbacks (cbs @ [cb]))))"

definition off ::
  "string \<Rightarrow> ('d, 'w) callback \<Rightarrow> ('d, 'w) callbacks \<Rightarrow> string + ('d, 'w) callbacks" where
  "off ev cb tbl =
     (case tbl ev of
        Undefined \<Rightarrow> Inr tbl
      | Inherited \<Rightarrow> Inl ''TypeError''
      | Callbacks cbs \<Rightarrow> Inr (tbl(ev := Callbacks (filter (\<lambda>c. cb_ref c \<noteq> cb_ref cb) cbs))))"

text \<open>Callbacks registered one after the other, as long as no call throws.\<close>

fun on_each ::
  "(string \<times> ('d, 'w) callback) list \<Rightarrow> ('d, 'w) callbacks \<Rightarrow> string + ('d, 'w) callbacks" where
  "on_each [] tbl = Inr tbl"
| "on_each ((ev, cb) # rest) tbl =
     (case on ev cb tbl of Inl e \<Rightarrow> Inl e | Inr tbl' \<Rightarrow> on_each rest tbl')"

text \<open>
  \<open>Array.prototype.forEach\<close> over a statement that may throw: an exception leaves the
  loop at once and reaches the caller. The state is the world and the console.
\<close>

fun forEach :: "('a \<Rightarrow> 's \<Rightarrow> string option \<times> 's) \<Rightarrow> 'a list \<Rightarrow> 's \<Rightarrow> string option \<times> 's" where
  "forEach f [] s = (None, s)"
| "forEach f (x # xs) s =
     (case f x s of
        (Some e, s') \<Rightarrow> (Some e, s')
      | (None, s') \<Rightarrow> forEach f xs s')"

text \<open>\<open>try { body } catch (e) { handler(e) }\<close>.\<close>

definition try_catch ::
  "('s \<Rightarrow> string option \<times> 's) \<Rightarrow> (string \<Rightarrow> 's \<Rightarrow> string option \<times> 's) \<Rightarrow> 's \<Rightarrow> string option \<times> 's" where
  "try_catch body handler s =
     (case body s of (Some e, s') \<Rightarrow> handler e s' | (None, s') \<Rightarrow> (None, s'))"

definition console_error :: "string \<Rightarrow> 'w \<times> string list \<Rightarrow> string option \<times> ('w \<times> string list)" where
  "console_error msg s = (None, (fst s, snd s @ [msg]))"

definition call :: "('d, 'w) callback \<Rightarrow> 'd \<Rightarrow> 'w \<times> string list \<Rightarrow> string option \<times> ('w \<times> string list)" where
  "call cb d s = (case cb_run cb d (fst s) of (r, w') \<Rightarrow> (r, (w', snd s)))"

text \<open>
  \<open>WSHandler._emit(event, data)\<close>. On an inherited name the guard passes and the call of
  \<open>forEach\<close> throws a TypeError.
\<close>

definition emit ::
  "('d, 'w) callbacks \<Rightarrow> string \<Rightarrow> 'd \<Rightarrow> 'w \<times> string list \<Rightarrow> string option \<times> ('w \<times> string list)" where
  "emit tbl ev d s =
     (case tbl ev of
        Undefined \<Rightarrow> (None, s)
      | Inherited \<Rightarrow> (Some ''TypeError'', s)
      | Callbacks cbs \<Rightarrow>
          forEach (\<lambda>cb. try_catch (call cb d)
                     (\<lambda>e. console_error (''Error in '' @ ev @ '' callback: '' @ e))) cbs s)"

text \<open>
  What the registered callbacks do when each of them is run once, in the order of
  registration, whatever the others did: the world they leave and what each threw.
\<close>

fun deliver_all :: "'d \<Rightarrow> ('d, 'w) callback list \<Rightarrow> 'w \<Rightarrow> string option list \<times> 'w" where
  "deliver_all d [] w = ([], w)"
| "deliver_all d (cb # cbs) w =
     (case cb_run cb d w of (r, w') \<Rightarrow>
        (case deliver_all d cbs w' of (rs, w'') \<Rightarrow> (r # rs, w'')))"

definition thrown :: "string \<Rightarrow> string option list \<Rightarrow> string list" where
  "thrown ev rs = map (\<lambda>e. ''Error in '' @ ev @ '' callback: '' @ e) (List.map_filter id rs)"

section \<open>The WebSocket handler: connection and reconnection\<close>

datatype readyState = CONNECTING | OPEN | CLOSING | CLOSED

datatype ws_message = Subscribe string | Ping

text \<open>
  The fields of \<open>WSHandler\<close> the connection code reads and writes. \<open>socket\<close> is
  \<open>this.socket\<close> (\<open>None\<close> for \<open>null\<close>) with the state of the socket it holds;
  \<open>timers\<close> are the delays of the pending \<open>setTimeout\<close> calls and \<open>timeouts\<close> every
  delay ever passed to \<open>setTimeout\<close>; \<open>sent\<close> are the messages given to
  \<open>socket.send\<close>, \<open>emitted\<close> the events given to \<open>_emit\<close>.
\<close>

record ws_handler =
  socket :: "readyState option"
  reconnectAttempts :: nat
  maxReconnectAttempts :: nat
  reconnectDelay :: nat
  timers :: "nat list"
  timeouts :: "nat list"
  sent :: "ws_message list"
  emitted :: "string list"

text \<open>The state the constructor leaves.\<close>

definition new_handler :: ws_handler where
  "new_handler =
     \<lparr>socket = None, reconnectAttempts = 0, maxReconnectAttempts = 5, reconnectDelay = 1000,
      timers = [], timeouts = [], sent = [], emitted = []\<rparr>"

text \<open>\<open>WSHandler._attemptReconnect\<close>.\<close>

definition attemptReconnect :: "ws_handler \<Rightarrow> ws_handler" where
  "attemptReconnect h =
     (if reconnectAttempts h \<ge> maxReconnectAttempts h then h
      else
        let n = reconnectAttempts h + 1;
            delay = reconnectDelay h * 2 ^ (n - 1)
        in h\<lparr>reconnectAttempts := n, timers := timers h @ [delay],
             timeouts := timeouts h @ [delay]\<rparr>)"

text \<open>
  \<open>WSHandler.connect\<close>; \<open>created\<close> tells whether \<open>new WebSocket\<close> returns a socket
  (then it is connecting) or throws.
\<close>

definition connect :: "bool \<Rightarrow> ws_handler \<Rightarrow> ws_handler" where
  "connect created h =
     (if socket h = Some OPEN then h
      else if created then h\<lparr>socket := Some CONNECTING\<rparr>
      else attemptReconnect h)"

text \<open>
  \<open>socket.send\<close> on \<open>this.socket\<close>: a TypeError on \<open>null\<close> and an InvalidStateError
  on a connecting socket end the handler that called it; a closing or closed socket drops
  the message.
\<close>

definition send :: "ws_message \<Rightarrow> ws_handler \<Rightarrow> ws_handler" where
  "send m h = (if socket h = Some OPEN then h\<lparr>sent := sent h @ [m]\<rparr> else h)"

text \<open>The \<open>onopen\<close> and \<open>onclose\<close> handlers that \<open>connect\<close> installs.\<close>

definition onopen :: "ws_handler \<Rightarrow> ws_handler" where
  "onopen h =
     send (Subscribe ''generation_progress'')
       (h\<lparr>reconnectAttempts := 0, emitted := emitted h @ [''connected'']\<rparr>)"

definition onclose :: "ws_handler \<Rightarrow> ws_handler" where
  "onclose h = attemptReconnect (h\<lparr>emitted := emitted h @ [''disconnected'']\<rparr>)"

text \<open>\<open>WSHandler.disconnect\<close> and \<open>WSHandler.ping\<close>.\<close>

definition disconnect :: "ws_handler \<Rightarrow> ws_handler" where
  "disconnect h = (case socket h of None \<Rightarrow> h | Some _ \<Rightarrow> h\<lparr>socket := None\<rparr>)"

definition ping :: "ws_handler \<Rightarrow> ws_handler" where
  "ping h = send Ping h"

text \<open>
  What can happen to a handler. \<open>Opens\<close> and \<open>Closes\<close> are the socket held in
  \<open>this.socket\<close> opening and closing; \<open>StaleOpens\<close> and \<open>StaleCloses\<close> are the same
  events of a socket that \<open>connect\<close> has replaced or \<open>disconnect\<close> has dropped, whose
  handlers still run on the handler's fields. \<open>TimerFires i\<close> is the \<open>i\<close>-th pending
  timer running its \<open>connect\<close>.
\<close>

datatype ws_event =
  CallConnect bool | CallDisconnect | CallPing
  | Opens | Closes | StaleOpens | StaleCloses
  | TimerFires nat bool

fun step :: "ws_event \<Rightarrow> ws_handler \<Rightarrow> ws_handler" where
  "step (CallConnect created) h = connect created h"
| "step CallDisconnect h = disconnect h"
| "step CallPing h = ping h"
| "step Opens h =
     (if socket h = Some CONNECTING then onopen (h\<lparr>socket := Some OPEN\<rparr>) else h)"
| "step Closes h =
     (case socket h of
        None \<Rightarrow> h
      | Some CLOSED \<Rightarrow> h
      | Some _ \<Rightarrow> onclose (h\<lparr>socket := Some CLOSED\<rparr>))"
| "step StaleOpens h = onopen h"
| "step StaleCloses h = onclose h"
| "step (TimerFires i created) h =
     (if i < length (timers h)
      then connect created (h\<lparr>timers := take i (timers h) @ drop (Suc i) (timers h)\<rparr>)
      else h)"

definition run :: "ws_event list \<Rightarrow> ws_handler \<Rightarrow> ws_handler" where
  "run evs h = foldl (\<lambda>s e. step e s) h evs"

text \<open>A reconnection attempt that fails: the socket closes, the timer fires, a new socket is made.\<close>

definition failed_attempts :: "nat \<Rightarrow> ws_event list" where
  "failed_attempts n = concat (replicate n [Closes, TimerFires 0 True])"

text \<open>What every reachable state of the handler satisfies.\<close>

definition ws_inv :: "ws_handler \<Rightarrow> bool" where
  "ws_inv h = (reconnectAttempts h \<le> 5 \<and> maxReconnectAttempts h = 5 \<and> reconnectDelay h = 1000)"

section \<open>The documented ranges of the request fields\<close>

text \<open>
  The ranges the repository documents for the fields of the two generation requests
  (the API reference in \<open>docs/QUICK_REFERENCE.md\<close> and the request models of the
  implementation notes): steps 10 to 100, guidance scale 1.0 to 5.0, strength 0.1 to 1.0,
  prompt and modification 1 to 500 characters.
\<close>

definition steps_ok :: "real \<Rightarrow> bool" where
  "steps_ok r = (10 \<le> r \<and> r \<le> 100)"

definition guidance_ok :: "real \<Rightarrow> bool" where
  "guidance_ok r = (1 \<le> r \<and> r \<le> 5)"

definition strength_ok :: "real \<Rightarrow> bool" where
  "strength_ok r = (0.1 \<le> r \<and> r \<le> 1)"

definition text_ok :: "string \<Rightarrow> bool" where
  "text_ok s = (1 \<le> length s \<and> length s \<le> 500)"

section \<open>The prompt rewriter\<close>

text \<open>
  Modelled from the spec: the PromptRewriter, whose code is not among the sources. Its
  rules are tried in order and the first that matches decides. The colour rule and the
  addition rule are written out below; the rules after them (style, object, background,
  removal, default) are the parameter \<open>later\<close> of \<open>rewrite\<close>, and the default rule
  is written out to stand for it in the examples.
\<close>

text \<open>Modelled from the spec: matching is case-insensitive on the modification text.\<close>

definition lower_char :: "char \<Rightarrow> char" where
  "lower_char c =
     (let n = (of_char c :: nat) in if 65 \<le> n \<and> n \<le> 90 then char_of (n + 32) else c)"

text \<open>Modelled from the spec: a text in lower case, for the case-insensitive matching.\<close>

definition lowercase :: "string \<Rightarrow> string" where
  "lowercase s = map lower_char s"

text \<open>Modelled from the spec: the words of a text, and a text from its words.\<close>

fun words_from :: "string \<Rightarrow> string \<Rightarrow> string list" where
  "words_from w [] = (if w = [] then [] else [w])"
| "words_from w (c # cs) =
     (if c = CHR '' '' then (if w = [] then words_from [] cs else w # words_from [] cs)
      else words_from (w @ [c]) cs)"

text \<open>Modelled from the spec: the words of a text are what its spaces separate.\<close>

definition words :: "string \<Rightarrow> string list" where
  "words s = words_from [] s"

text \<open>Modelled from the spec: words joined by single spaces again.\<close>

fun unwords :: "string list \<Rightarrow> string" where
  "unwords [] = []"
| "unwords [w] = w"
| "unwords (w # ws) = w @ '' '' @ unwords ws"

text \<open>
  Modelled from the spec: the recognized colour terms. The specification names none but
  those of its examples (red, blue, green); the list has these and the other common ones.
\<close>

definition color_terms :: "string list" where
  "color_terms =
     [''red'', ''blue'', ''green'', ''yellow'', ''orange'', ''purple'', ''pink'', ''black'',
      ''white'', ''brown'', ''gray'', ''grey'']"

text \<open>Modelled from the spec: a word is a colour term whatever its case.\<close>

definition is_color :: "string \<Rightarrow> bool" where
  "is_color w = (lowercase w \<in> set color_terms)"

text \<open>
  Modelled from the spec: the pattern \<open>make (the )?X Y\<close> with \<open>Y\<close> a recognized colour.
  The first colour word that has words before it ends the first pair; what follows it is
  the remainder. The result is \<open>(X, Y, remainder)\<close>.
\<close>

fun first_pair :: "string list \<Rightarrow> string list \<Rightarrow> (string \<times> string \<times> string) option" where
  "first_pair xs [] = None"
| "first_pair xs (w # ws) =
     (if xs \<noteq> [] \<and> is_color w then Some (unwords xs, w, unwords ws)
      else first_pair (xs @ [w]) ws)"

text \<open>Modelled from the spec: the modification starts with \<open>make\<close>, an optional \<open>the\<close> follows, then the first pair.\<close>

definition color_request :: "string \<Rightarrow> (string \<times> string \<times> string) option" where
  "color_request m =
     (case words m of
        [] \<Rightarrow> None
      | w # rest \<Rightarrow>
          if lowercase w \<noteq> ''make'' then None
          else (case rest of
                  [] \<Rightarrow> None
                | t # r \<Rightarrow> first_pair [] (if lowercase t = ''the'' then r else rest)))"

text \<open>
  Modelled from the spec: the first literal occurrence of \<open>x\<close> in a text, as the text
  before it and the text after it.
\<close>

fun split_at_first :: "string \<Rightarrow> string \<Rightarrow> (string \<times> string) option" where
  "split_at_first x [] = (if x = [] then Some ([], []) else None)"
| "split_at_first x (c # cs) =
     (if take (length x) (c # cs) = x then Some ([], drop (length x) (c # cs))
      else map_option (\<lambda>(b, a). (c # b, a)) (split_at_first x cs))"

text \<open>Modelled from the spec: the last token of a text, back to the nearest space.\<close>

definition last_word :: "string \<Rightarrow> string" where
  "last_word s = rev (takeWhile (\<lambda>c. c \<noteq> CHR '' '') (rev s))"

text \<open>
  Modelled from the spec: the colour token immediately before the first occurrence of
  \<open>X\<close> is replaced by \<open>Y\<close>; a prompt in which \<open>X\<close> does not occur gets \<open>Y X\<close> appended
  as a new clause. Where \<open>X\<close> occurs with no colour token before it the specification
  names no effect, and the prompt stays as it is.
\<close>

definition replace_color :: "string \<Rightarrow> string \<Rightarrow> string \<Rightarrow> string" where
  "replace_color prompt x y =
     (case split_at_first x prompt of
        None \<Rightarrow> prompt @ '', '' @ y @ '' '' @ x
      | Some (pre, post) \<Rightarrow>
          if pre \<noteq> [] \<and> last pre = CHR '' '' \<and> is_color (last_word (butlast pre))
          then take (length pre - length (last_word (butlast pre)) - 1) pre
                 @ y @ '' '' @ x @ post
          else prompt)"

text \<open>
  Modelled from the spec: rule 1. Only the first recognized pair is applied; a remainder
  is appended as it stands, the way the default rule appends.
\<close>

definition color_rule :: "string \<Rightarrow> string \<Rightarrow> string option" where
  "color_rule prompt m =
     (case color_request m of
        None \<Rightarrow> None
      | Some (x, y, remainder) \<Rightarrow>
          Some (replace_color prompt x y @ (if remainder = [] then [] else '', '' @ remainder)))"

text \<open>Modelled from the spec: rule 2, the pattern \<open>add X\<close> appends \<open>, X\<close>.\<close>

definition addition_rule :: "string \<Rightarrow> string \<Rightarrow> string option" where
  "addition_rule prompt m =
     (if lowercase (take 4 m) = ''add '' \<and> drop 4 m \<noteq> [] then Some (prompt @ '', '' @ drop 4 m)
      else None)"

text \<open>Modelled from the spec: rule 7, the default, appends the modification as it stands.\<close>

definition default_rule :: "string \<Rightarrow> string \<Rightarrow> string" where
  "default_rule prompt m = prompt @ '', '' @ m"

text \<open>Modelled from the spec: \<open>rewrite(currentPrompt, modification)\<close>, first match wins.\<close>

definition rewrite :: "(string \<Rightarrow> string \<Rightarrow> string) \<Rightarrow> string \<Rightarrow> string \<Rightarrow> string" where
  "rewrite later prompt m =
     (case color_rule prompt m of
        Some r \<Rightarrow> r
      | None \<Rightarrow> (case addition_rule prompt m of Some r \<Rightarrow> r | None \<Rightarrow> later prompt m))"

section \<open>The history and the session engine\<close>

text \<open>Modelled from the spec: the kind of a GenerationRecord.\<close>

datatype kind = NEW | REFINEMENT

text \<open>
  Modelled from the spec: the GenerationRecord of the session engine. The engine runs on
  the server, whose code is not among the sources.
\<close>

record GenerationRecord =
  rec_id :: nat
  rec_kind :: kind
  rec_prompt :: string
  rec_modification :: "string option"
  rec_parentId :: "nat option"
  rec_seed :: int
  rec_steps :: real
  rec_guidanceScale :: real
  rec_strength :: "real option"
  rec_imageRef :: string
  rec_createdAt :: nat
  rec_durationMs :: nat

text \<open>Modelled from the spec: the error taxonomy of the engine.\<close>

datatype error =
  InvalidParameters | NoCurrentImage | Busy | ModelError string string | Cancelled | NotFound

text \<open>
  Modelled from the spec: what the engine remembers of the generation in flight, to
  write the record when the collaborator is done.
\<close>

record job =
  job_kind :: kind
  job_prompt :: string
  job_modification :: "string option"
  job_parentId :: "nat option"
  job_seed :: "int option"
  job_steps :: real
  job_guidanceScale :: real
  job_strength :: "real option"

text \<open>
  Modelled from the spec: the session. \<open>generating\<close> is \<open>None\<close> in the state IDLE and
  holds the job in the state GENERATING.
\<close>

record SessionState =
  records :: "GenerationRecord list"
  currentId :: "nat option"
  generating :: "job option"
  lastError :: "error option"

text \<open>Modelled from the spec: the SessionState is created empty, in the state IDLE.\<close>

definition empty_session :: SessionState where
  "empty_session = \<lparr>records = [], currentId = None, generating = None, lastError = None\<rparr>"

text \<open>Modelled from the spec: \<open>get(id)\<close> of the HistoryStore and the current record.\<close>

definition get :: "SessionState \<Rightarrow> nat \<Rightarrow> GenerationRecord option" where
  "get st i = find (\<lambda>r. rec_id r = i) (records st)"

text \<open>Modelled from the spec: the record \<open>currentId\<close> points to; a pointer to a record that is gone finds none.\<close>

definition current :: "SessionState \<Rightarrow> GenerationRecord option" where
  "current st = (case currentId st of None \<Rightarrow> None | Some i \<Rightarrow> get st i)"

text \<open>Modelled from the spec: the parameters of \<open>generateNew\<close>.\<close>

record new_params =
  new_steps :: real
  new_guidanceScale :: real
  new_seed :: "int option"
  new_width :: nat
  new_height :: nat

text \<open>Modelled from the spec: the parameters of \<open>refine\<close>: there is no seed among them.\<close>

record refine_params =
  ref_steps :: real
  ref_guidanceScale :: real
  ref_strength :: real

text \<open>
  Modelled from the spec: the calls of the generation collaborator, text to image with
  the prompt and the parameters, image to image with the image, the prompt, the strength,
  the steps, the guidance scale and the seed.
\<close>

datatype collab_call =
  TextToImage string new_params
  | ImageToImage string string real real real int

text \<open>Modelled from the spec: what the collaborator returns when it is done.\<close>

record collab_result =
  res_imageRef :: string
  res_seedUsed :: int
  res_durationMs :: nat

text \<open>
  Modelled from the spec: \<open>generateNew(prompt, params)\<close> up to the call of the
  collaborator. A request in the state GENERATING fails with Busy, one with a parameter
  outside its range with InvalidParameters; neither changes the state.
\<close>

definition generateNew :: "string \<Rightarrow> new_params \<Rightarrow> SessionState \<Rightarrow> (error + collab_call) \<times> SessionState" where
  "generateNew prompt p st =
     (if generating st \<noteq> None then (Inl Busy, st)
      else if \<not> (text_ok prompt \<and> steps_ok (new_steps p) \<and> guidance_ok (new_guidanceScale p))
      then (Inl InvalidParameters, st)
      else (Inr (TextToImage prompt p),
            st\<lparr>generating := Some \<lparr>job_kind = NEW, job_prompt = prompt, job_modification = None,
                 job_parentId = None, job_seed = new_seed p, job_steps = new_steps p,
                 job_guidanceScale = new_guidanceScale p, job_strength = None\<rparr>\<rparr>))"

text \<open>
  Modelled from the spec: \<open>refine(modification, params)\<close> up to the call of the
  collaborator. As for \<open>generateNew\<close>, a request in the state GENERATING fails with Busy.
  Then the current record must exist; the new prompt is the rewritten prompt of the
  current record, and the seed is the seed of the current record: the operation takes no
  seed. \<open>rw\<close> is the PromptRewriter.
\<close>

definition refine ::
  "(string \<Rightarrow> string \<Rightarrow> string) \<Rightarrow> string \<Rightarrow> refine_params \<Rightarrow> SessionState
     \<Rightarrow> (error + collab_call) \<times> SessionState" where
  "refine rw modification p st =
     (if generating st \<noteq> None then (Inl Busy, st)
      else case current st of
        None \<Rightarrow> (Inl NoCurrentImage, st)
      | Some cur \<Rightarrow>
          if \<not> (text_ok modification \<and> steps_ok (ref_steps p)
                      \<and> guidance_ok (ref_guidanceScale p) \<and> strength_ok (ref_strength p))
          then (Inl InvalidParameters, st)
          else
            let newPrompt = rw (rec_prompt cur) modification in
            (Inr (ImageToImage (rec_imageRef cur) newPrompt (ref_strength p) (ref_steps p)
                    (ref_guidanceScale p) (rec_seed cur)),
             st\<lparr>generating := Some \<lparr>job_kind = REFINEMENT, job_prompt = newPrompt,
                  job_modification = Some modification, job_parentId = Some (rec_id cur),
                  job_seed = Some (rec_seed cur), job_steps = ref_steps p,
                  job_guidanceScale = ref_guidanceScale p,
                  job_strength = Some (ref_strength p)\<rparr>\<rparr>))"

text \<open>
  Modelled from the spec: \<open>getCurrent()\<close> of the session query surface, the record in
  view or none; it is what the application gets as \<open>current_image\<close>.
\<close>

definition getCurrent :: "SessionState \<Rightarrow> GenerationRecord option" where
  "getCurrent st = current st"

text \<open>
  Modelled from the spec: the collaborator is done. The record of the job is appended
  and becomes the current one; a new generation without a seed of its own records the
  seed the collaborator used.
\<close>

definition completed :: "collab_result \<Rightarrow> nat \<Rightarrow> SessionState \<Rightarrow> SessionState" where
  "completed res now st =
     (case generating st of
        None \<Rightarrow> st
      | Some j \<Rightarrow>
          let r = \<lparr>rec_id = length (records st), rec_kind = job_kind j, rec_prompt = job_prompt j,
                   rec_modification = job_modification j, rec_parentId = job_parentId j,
                   rec_seed = (case job_seed j of Some s \<Rightarrow> s | None \<Rightarrow> res_seedUsed res),
                   rec_steps = job_steps j, rec_guidanceScale = job_guidanceScale j,
                   rec_strength = job_strength j, rec_imageRef = res_imageRef res,
                   rec_createdAt = now, rec_durationMs = res_durationMs res\<rparr>
          in st\<lparr>records := records st @ [r], currentId := Some (rec_id r), generating := None\<rparr>)"

text \<open>Modelled from the spec: the collaborator failed, or the generation was cancelled.\<close>

definition failed :: "error \<Rightarrow> SessionState \<Rightarrow> SessionState" where
  "failed e st = st\<lparr>generating := None, lastError := Some e\<rparr>"

section \<open>Example inputs\<close>

text \<open>Parameters with every number zero.\<close>

definition zero_params :: params where
  "zero_params =
     \<lparr>steps = JNum 0, guidanceScale = JNum 0, strength = JNum 0, seed = JNum 0,
      width = JUndefined, height = JUndefined\<rparr>"



text \<open>A callback that records its number in the world and throws what it is told to.\<close>

definition tracer :: "nat \<Rightarrow> string option \<Rightarrow> (unit, nat list) callback" where
  "tracer i r = \<lparr>cb_ref = i, cb_run = (\<lambda>_ w. (r, w @ [i]))\<rparr>"

definition three_observers :: "(unit, nat list) callbacks" where
  "three_observers =
     (case on_each [(''progress'', tracer 1 None), (''progress'', tracer 2 (Some ''boom'')),
                    (''progress'', tracer 3 None)] no_callbacks of
        Inl _ \<Rightarrow> no_callbacks
      | Inr tbl \<Rightarrow> tbl)"

text \<open>An empty session whose first generation is in flight.\<close>

definition usual_new :: new_params where
  "usual_new =
     \<lparr>new_steps = 28, new_guidanceScale = 3.5, new_seed = Some 42, new_width = 1024,
      new_height = 1024\<rparr>"


text \<open>A handler whose first connection has opened.\<close>

definition connected_handler :: ws_handler where
  "connected_handler = run [CallConnect True, Opens] new_handler"


text \<open>A session after one new generation with the seed 42, and a refinement of it.\<close>

definition ball_record :: GenerationRecord where
  "ball_record =
     \<lparr>rec_id = 0, rec_kind = NEW, rec_prompt = ''a blue ball on green grass'',
      rec_modification = None, rec_parentId = None, rec_seed = 42, rec_steps = 28,
      rec_guidanceScale = 3.5, rec_strength = None, rec_imageRef = ''gen_001'',
      rec_createdAt = 0, rec_durationMs = 18500\<rparr>"

definition ball_session :: SessionState where
  "ball_session = \<lparr>records = [ball_record], currentId = Some 0, generating = None, lastError = None\<rparr>"

definition usual_refine :: refine_params where
  "usual_refine = \<lparr>ref_steps = 28, ref_guidanceScale = 3.5, ref_strength = 0.6\<rparr>"

definition red_result :: collab_result where
  "red_result = \<lparr>res_imageRef = ''gen_002'', res_seedUsed = 7, res_durationMs = 15200\<rparr>"

section \<open>Facts about the request bodies\<close>

lemma to_json_js_or_num:
  "d \<noteq> 0 \<Longrightarrow> to_json (js_or v (JNum d)) =
     Some (case v of JNum r \<Rightarrow> JsNum (if r = 0 then d else r) | JInfinity \<Rightarrow> JsNull
           | JNegInfinity \<Rightarrow> JsNull | _ \<Rightarrow> JsNum d)"
  by (cases v) (simp_all add: js_or_def)

lemma to_json_js_or_null:
  "to_json (js_or v JNull) = Some (case v of JNum r \<Rightarrow> if r = 0 then JsNull else JsNum r | _ \<Rightarrow> JsNull)"
  by (cases v) (simp_all add: js_or_def)

lemma generateNew_body_fields:
  "map_of (generateNew_body prompt p) ''steps'' = to_json (js_or (steps p) (JNum 28))"
  "map_of (generateNew_body prompt p) ''guidance_scale'' = to_json (js_or (guidanceScale p) (JNum 3.5))"
  "map_of (generateNew_body prompt p) ''seed'' = to_json (js_or (seed p) JNull)"
  "map_of (generateNew_body prompt p) ''prompt'' = Some (JsStr prompt)"
  by (simp_all add: generateNew_body_def stringify_def List.map_filter_def
        to_json_js_or_num to_json_js_or_null)

lemma refine_body_fields:
  "map_of (refine_body m p) ''strength'' = to_json (js_or (strength p) (JNum 0.6))"
  "map_of (refine_body m p) ''steps'' = to_json (js_or (steps p) (JNum 28))"
  "map_of (refine_body m p) ''guidance_scale'' = to_json (js_or (guidanceScale p) (JNum 3.5))"
  "map_of (refine_body m p) ''modification'' = Some (JsStr m)"
  "map_of (refine_body m p) ''seed'' = None"
  by (simp_all add: refine_body_def stringify_def List.map_filter_def to_json_js_or_num)

lemma sent_field_generateNew:
  "sent_field (api_generateNew prompt p) k = map_of (generateNew_body prompt p) k"
  by (simp add: sent_field_def api_generateNew_def)

lemma sent_field_refine:
  "sent_field (api_refine m p) k = map_of (refine_body m p) k"
  by (simp add: sent_field_def api_refine_def)

text \<open>
  C9. The API client replaces every falsy parameter by its default before the request
  is written: a falsy seed, the seed 0 among them, is sent as \<open>null\<close>; steps 0 is sent
  as 28 and guidance scale 0 as 3.5, by \<open>generateNew\<close> and by \<open>refine\<close>. No request
  ever carries the number 0 in one of these fields.
\<close>

theorem falsy_parameters_replaced:
  "(\<not> truthy (seed p) \<longrightarrow> sent_field (api_generateNew prompt p) ''seed'' = Some JsNull)
   \<and> sent_field (api_generateNew prompt (p\<lparr>seed := JNum 0\<rparr>)) ''seed'' = Some JsNull
   \<and> (steps p = JNum 0 \<longrightarrow>
        sent_field (api_generateNew prompt p) ''steps'' = Some (JsNum 28)
        \<and> sent_field (api_refine m p) ''steps'' = Some (JsNum 28))
   \<and> (guidanceScale p = JNum 0 \<longrightarrow>
        sent_field (api_generateNew prompt p) ''guidance_scale'' = Some (JsNum 3.5)
        \<and> sent_field (api_refine m p) ''guidance_scale'' = Some (JsNum 3.5))
   \<and> sent_field (api_generateNew prompt p) ''seed'' \<noteq> Some (JsNum 0)
   \<and> sent_field (api_generateNew prompt p) ''steps'' \<noteq> Some (JsNum 0)
   \<and> sent_field (api_generateNew prompt p) ''guidance_scale'' \<noteq> Some (JsNum 0)
   \<and> sent_field (api_refine m p) ''steps'' \<noteq> Some (JsNum 0)
   \<and> sent_field (api_refine m p) ''guidance_scale'' \<noteq> Some (JsNum 0)"
  by (cases "seed p"; cases "steps p"; cases "guidanceScale p")
     (simp_all add: sent_field_generateNew sent_field_refine generateNew_body_fields
        refine_body_fields js_or_def)

theorem falsy_parameters_replaced_witness:
  "\<not> truthy (seed zero_params) \<and> steps zero_params = JNum 0 \<and> guidanceScale zero_params = JNum 0
   \<and> sent_field (api_generateNew ''a cat'' zero_params) ''seed'' = Some JsNull
   \<and> sent_field (api_generateNew ''a cat'' zero_params) ''steps'' = Some (JsNum 28)
   \<and> sent_field (api_refine ''add a hat'' zero_params) ''steps'' = Some (JsNum 28)
   \<and> sent_field (api_generateNew ''a cat'' zero_params) ''guidance_scale'' = Some (JsNum 3.5)
   \<and> sent_field (api_refine ''add a hat'' zero_params) ''guidance_scale'' = Some (JsNum 3.5)"
  using falsy_parameters_replaced [of zero_params "''a cat''" "''add a hat''"]
  by (simp add: zero_params_def)

section \<open>Parameters outside their range\<close>

text \<open>
  What the API client does keep: a steps, guidance scale or strength given as a finite
  number other than zero is written to the request as it is, and so are the prompt and the
  modification.
\<close>

lemma finite_nonzero_sent_unchanged:
  "(steps p = JNum r \<and> r \<noteq> 0 \<longrightarrow>
      sent_field (api_generateNew prompt p) ''steps'' = Some (JsNum r)
      \<and> sent_field (api_refine m p) ''steps'' = Some (JsNum r))
   \<and> (guidanceScale p = JNum g \<and> g \<noteq> 0 \<longrightarrow>
      sent_field (api_generateNew prompt p) ''guidance_scale'' = Some (JsNum g)
      \<and> sent_field (api_refine m p) ''guidance_scale'' = Some (JsNum g))
   \<and> (strength p = JNum s \<and> s \<noteq> 0 \<longrightarrow>
      sent_field (api_refine m p) ''strength'' = Some (JsNum s))
   \<and> sent_field (api_generateNew prompt p) ''prompt'' = Some (JsStr prompt)
   \<and> sent_field (api_refine m p) ''modification'' = Some (JsStr m)"
  by (simp add: sent_field_generateNew sent_field_refine generateNew_body_fields
        refine_body_fields js_or_def)

text \<open>
  C4. The code at the failing input, a call with every number zero: steps 0, guidance
  scale 0 and strength 0 are each outside their documented range, and the requests that
  \<open>generateNew\<close> and \<open>refine\<close> send carry 28, 3.5 and 0.6 in their place, each inside
  its range. The value that was asked for never reaches a validation, so nothing can
  reject it.
\<close>

theorem zero_replaced_by_value_in_range:
  "steps zero_params = JNum 0 \<and> \<not> steps_ok 0
   \<and> sent_field (api_generateNew ''a cat'' zero_params) ''steps'' = Some (JsNum 28)
   \<and> sent_field (api_refine ''add a hat'' zero_params) ''steps'' = Some (JsNum 28)
   \<and> steps_ok 28
   \<and> guidanceScale zero_params = JNum 0 \<and> \<not> guidance_ok 0
   \<and> sent_field (api_generateNew ''a cat'' zero_params) ''guidance_scale'' = Some (JsNum 3.5)
   \<and> sent_field (api_refine ''add a hat'' zero_params) ''guidance_scale'' = Some (JsNum 3.5)
   \<and> guidance_ok 3.5
   \<and> strength zero_params = JNum 0 \<and> \<not> strength_ok 0
   \<and> sent_field (api_refine ''add a hat'' zero_params) ''strength'' = Some (JsNum 0.6)
   \<and> strength_ok 0.6"
  by (simp add: zero_params_def steps_ok_def guidance_ok_def strength_ok_def
        sent_field_generateNew sent_field_refine generateNew_body_fields refine_body_fields
        js_or_def)

section \<open>A generation in flight\<close>


lemma generation_end_clears_flag:
  "\<not> isGenerating (handleGenerationComplete st)"
  "\<not> isGenerating (handleGenerationError msg st)"
  "\<not> isGenerating (handleGenerate_settled (Result True) st)"
  "\<not> isGenerating (handleGenerate_settled (Failure msg) st)"
  by (simp_all add: handleGenerationComplete_def handleGenerationError_def)




section \<open>Callbacks: one failure does not stop the others\<close>

lemma forEach_try_catch:
  "forEach (\<lambda>cb. try_catch (call cb d) (\<lambda>e. console_error (pre @ e))) cbs (w, lg) =
     (None, (snd (deliver_all d cbs w),
             lg @ map (\<lambda>e. pre @ e) (List.map_filter id (fst (deliver_all d cbs w)))))"
proof (induction cbs arbitrary: w lg)
  case Nil
  show ?case by simp
next
  case (Cons cb cbs)
  obtain r w' where r: "cb_run cb d w = (r, w')" by (cases "cb_run cb d w")
  obtain rs w'' where rs: "deliver_all d cbs w' = (rs, w'')" by (cases "deliver_all d cbs w'")
  show ?case
  proof (cases r)
    case None
    with r rs Cons.IH [of w' lg] show ?thesis
      by (simp add: try_catch_def call_def)
  next
    case (Some e)
    with r rs Cons.IH [of w' "lg @ [pre @ e]"] show ?thesis
      by (simp add: try_catch_def call_def console_error_def)
  qed
qed

lemma length_deliver_all: "length (fst (deliver_all d cbs w)) = length cbs"
proof (induction cbs arbitrary: w)
  case Nil
  show ?case by simp
next
  case (Cons cb cbs)
  obtain r w' where r: "cb_run cb d w = (r, w')" by (cases "cb_run cb d w")
  obtain rs w'' where rs: "deliver_all d cbs w' = (rs, w'')" by (cases "deliver_all d cbs w'")
  from Cons.IH [of w'] r rs show ?case by simp
qed

lemma three_observers_progress:
  "three_observers ''progress'' =
     Callbacks [tracer 1 None, tracer 2 (Some ''boom''), tracer 3 None]"
  by (simp add: three_observers_def on_def no_callbacks_def)

text \<open>
  C8. \<open>_emit\<close> runs every callback registered for the event once, in the order of
  registration, whether or not an earlier one threw: the world it leaves is the one all
  of them leave, it never throws itself, and the console gets one line for each callback
  that threw. No callback is run a second time.
\<close>

theorem emit_isolates_observers:
  "tbl ev = Callbacks cbs \<Longrightarrow>
     emit tbl ev d (w, lg) =
       (None, (snd (deliver_all d cbs w), lg @ thrown ev (fst (deliver_all d cbs w))))
     \<and> length (fst (deliver_all d cbs w)) = length cbs"
proof -
  assume tbl: "tbl ev = Callbacks cbs"
  have "emit tbl ev d (w, lg) =
      forEach (\<lambda>cb. try_catch (call cb d)
                 (\<lambda>e. console_error ((''Error in '' @ ev @ '' callback: '') @ e))) cbs (w, lg)"
    using tbl by (simp add: emit_def)
  also have "\<dots> = (None, (snd (deliver_all d cbs w), lg @ thrown ev (fst (deliver_all d cbs w))))"
    unfolding forEach_try_catch thrown_def by simp
  finally show ?thesis by (simp add: length_deliver_all)
qed

theorem emit_isolates_observers_witness:
  "three_observers ''progress'' =
     Callbacks [tracer 1 None, tracer 2 (Some ''boom''), tracer 3 None]
   \<and> emit three_observers ''progress'' () ([], []) =
       (None, ([1, 2, 3], [''Error in progress callback: boom'']))"
  using emit_isolates_observers [of three_observers "''progress''" _ "()" "[]" "[]"]
  by (simp add: three_observers_progress tracer_def thrown_def)

section \<open>Reconnection\<close>

lemma run_Cons: "run (e # evs) h = run evs (step e h)"
  by (simp add: run_def)

lemma run_append: "run (xs @ ys) h = run ys (run xs h)"
  by (simp add: run_def)

lemma ws_inv_attemptReconnect: "ws_inv h \<Longrightarrow> ws_inv (attemptReconnect h)"
  by (auto simp: ws_inv_def attemptReconnect_def Let_def)

lemma ws_inv_connect: "ws_inv h \<Longrightarrow> ws_inv (connect c h)"
  using ws_inv_attemptReconnect [of h] by (auto simp: connect_def) (simp add: ws_inv_def)

lemma ws_inv_send: "ws_inv h \<Longrightarrow> ws_inv (send m h)"
  by (simp add: ws_inv_def send_def)

lemma ws_inv_onopen: "ws_inv h \<Longrightarrow> ws_inv (onopen h)"
  unfolding onopen_def by (rule ws_inv_send) (simp add: ws_inv_def)

lemma ws_inv_onclose: "ws_inv h \<Longrightarrow> ws_inv (onclose h)"
  unfolding onclose_def by (rule ws_inv_attemptReconnect) (simp add: ws_inv_def)

lemma ws_inv_upd:
  "ws_inv (h\<lparr>socket := s\<rparr>) = ws_inv h" "ws_inv (h\<lparr>timers := t\<rparr>) = ws_inv h"
  by (simp_all add: ws_inv_def)

lemma ws_inv_step: "ws_inv h \<Longrightarrow> ws_inv (step e h)"
proof (cases e)
  case Closes
  assume "ws_inv h"
  then show ?thesis using Closes
    by (auto simp: ws_inv_upd split: option.splits readyState.splits intro!: ws_inv_onclose)
qed (auto simp: ws_inv_connect ws_inv_onopen ws_inv_onclose ws_inv_send ws_inv_upd ping_def
      disconnect_def split: option.splits)

lemma ws_inv_run: "ws_inv h \<Longrightarrow> ws_inv (run evs h)"
  by (induction evs arbitrary: h) (simp_all add: run_def ws_inv_step)

lemma ws_inv_new: "ws_inv new_handler"
  by (simp add: ws_inv_def new_handler_def)

lemma one_failed_attempt:
  assumes "timers h = []" "socket h = Some OPEN \<or> socket h = Some CONNECTING"
    "reconnectAttempts h < maxReconnectAttempts h"
  shows "run [Closes, TimerFires 0 True] h =
     h\<lparr>socket := Some CONNECTING, reconnectAttempts := Suc (reconnectAttempts h),
       timeouts := timeouts h @ [reconnectDelay h * 2 ^ reconnectAttempts h],
       emitted := emitted h @ [''disconnected'']\<rparr>"
  using assms
  by (auto simp: run_def onclose_def attemptReconnect_def connect_def Let_def)

lemma failed_attempts_Suc:
  "failed_attempts (Suc n) = [Closes, TimerFires 0 True] @ failed_attempts n"
  by (simp add: failed_attempts_def)

lemma attempts_exhausted:
  assumes "timers h = []" "reconnectAttempts h \<ge> maxReconnectAttempts h"
  shows "timeouts (run (failed_attempts n) h) = timeouts h
       \<and> reconnectAttempts (run (failed_attempts n) h) = reconnectAttempts h"
  using assms
proof (induction n arbitrary: h)
  case 0
  then show ?case by (simp add: failed_attempts_def run_def)
next
  case (Suc n)
  let ?h' = "run [Closes, TimerFires 0 True] h"
  have "timers ?h' = [] \<and> reconnectAttempts ?h' = reconnectAttempts h
      \<and> maxReconnectAttempts ?h' = maxReconnectAttempts h \<and> timeouts ?h' = timeouts h"
    using Suc.prems
    by (auto simp: run_def onclose_def attemptReconnect_def split: option.splits readyState.splits)
  moreover have "run (failed_attempts (Suc n)) h = run (failed_attempts n) ?h'"
    by (simp only: failed_attempts_Suc run_append)
  ultimately show ?case using Suc.IH [of ?h'] Suc.prems by simp
qed

lemma failed_attempts_timeouts:
  assumes "timers h = []" "socket h = Some OPEN \<or> socket h = Some CONNECTING"
    "reconnectAttempts h \<le> maxReconnectAttempts h"
  shows "timeouts (run (failed_attempts n) h) =
           timeouts h @ map (\<lambda>k. reconnectDelay h * 2 ^ k)
             [reconnectAttempts h ..< min (reconnectAttempts h + n) (maxReconnectAttempts h)]
       \<and> reconnectAttempts (run (failed_attempts n) h) =
           min (reconnectAttempts h + n) (maxReconnectAttempts h)"
  using assms
proof (induction n arbitrary: h)
  case 0
  then show ?case by (simp add: failed_attempts_def run_def)
next
  case (Suc n)
  show ?case
  proof (cases "reconnectAttempts h < maxReconnectAttempts h")
    case False
    with Suc.prems have "reconnectAttempts h \<ge> maxReconnectAttempts h" by simp
    from attempts_exhausted [OF Suc.prems(1) this, of "Suc n"] Suc.prems False
    show ?thesis by simp
  next
    case True
    let ?h' = "run [Closes, TimerFires 0 True] h"
    let ?a = "reconnectAttempts h" and ?M = "maxReconnectAttempts h"
    note h' = one_failed_attempt [OF Suc.prems(1,2) True]
    have run_eq: "run (failed_attempts (Suc n)) h = run (failed_attempts n) ?h'"
      by (simp only: failed_attempts_Suc run_append)
    have pre: "timers ?h' = []" "socket ?h' = Some OPEN \<or> socket ?h' = Some CONNECTING"
      "reconnectAttempts ?h' \<le> maxReconnectAttempts ?h'"
      using True Suc.prems by (simp_all add: h')
    have fields: "reconnectAttempts ?h' = Suc ?a" "maxReconnectAttempts ?h' = ?M"
      "reconnectDelay ?h' = reconnectDelay h"
      "timeouts ?h' = timeouts h @ [reconnectDelay h * 2 ^ ?a]"
      by (simp_all add: h')
    have upt: "[?a ..< min (?a + Suc n) ?M] = ?a # [Suc ?a ..< min (Suc ?a + n) ?M]"
      using True by (simp add: upt_conv_Cons)
    from Suc.IH [OF pre] show ?thesis
      unfolding run_eq fields upt by simp
  qed
qed

lemma delays_from_one:
  "map (\<lambda>k. d * 2 ^ k) [0 ..< m] = map (\<lambda>k. d * 2 ^ (k - 1)) [1 ..< Suc m]"
proof -
  have "[1 ..< Suc m] = map Suc [0 ..< m]"
    by (simp add: map_Suc_upt)
  then show ?thesis by (simp add: comp_def)
qed

lemma connected_handler_eq:
  "connected_handler = new_handler\<lparr>socket := Some OPEN, sent := [Subscribe ''generation_progress''],
      emitted := [''connected'']\<rparr>"
  by (simp add: connected_handler_def run_def connect_def new_handler_def onopen_def send_def)

lemma five_delays:
  "map (\<lambda>k. 1000 * 2 ^ (k - 1)) [1 ..< Suc (min 7 5)] = [1000, 2000, 4000, 8000, 16000::nat]"
  by code_simp

text \<open>
  C10. In every state the handler can reach from its constructor the attempt counter is
  at most 5 (and the limit and the base delay are the constructor's 5 and 1000). A call of
  \<open>_attemptReconnect\<close> below the limit counts one attempt and sets one timer, of
  \<open>reconnectDelay * 2 ^ (k - 1)\<close> milliseconds for the \<open>k\<close>-th attempt; at the limit it
  does nothing. After a connection that was open, \<open>n\<close> attempts that fail in a row set
  the timers 1000, 2000, 4000, 8000, 16000 and no sixth one. The \<open>onopen\<close> handler sets
  the counter to 0 whenever it runs, and when the socket the handler holds opens, the
  subscription to \<open>generation_progress\<close> is sent on it.
\<close>

theorem bounded_exponential_reconnect:
  "ws_inv (run evs new_handler)
   \<and> (reconnectAttempts h < maxReconnectAttempts h \<longrightarrow>
        reconnectAttempts (attemptReconnect h) = reconnectAttempts h + 1
        \<and> timeouts (attemptReconnect h) =
            timeouts h @ [reconnectDelay h * 2 ^ (reconnectAttempts (attemptReconnect h) - 1)])
   \<and> (reconnectAttempts h \<ge> maxReconnectAttempts h \<longrightarrow> attemptReconnect h = h)
   \<and> (ws_inv h \<and> reconnectAttempts h = 0 \<and> timers h = [] \<and> socket h = Some OPEN \<longrightarrow>
        timeouts (run (failed_attempts n) h) =
          timeouts h @ map (\<lambda>k. 1000 * 2 ^ (k - 1)) [1 ..< Suc (min n 5)]
        \<and> reconnectAttempts (run (failed_attempts n) h) = min n 5)
   \<and> (socket h = Some CONNECTING \<longrightarrow>
        reconnectAttempts (step Opens h) = 0
        \<and> sent (step Opens h) = sent h @ [Subscribe ''generation_progress''])
   \<and> reconnectAttempts (onopen h) = 0"
proof -
  have inv: "ws_inv (run evs new_handler)"
    by (rule ws_inv_run [OF ws_inv_new])
  have below: "reconnectAttempts h < maxReconnectAttempts h \<longrightarrow>
        reconnectAttempts (attemptReconnect h) = reconnectAttempts h + 1
        \<and> timeouts (attemptReconnect h) =
            timeouts h @ [reconnectDelay h * 2 ^ (reconnectAttempts (attemptReconnect h) - 1)]"
    by (simp add: attemptReconnect_def Let_def)
  have at_limit: "reconnectAttempts h \<ge> maxReconnectAttempts h \<longrightarrow> attemptReconnect h = h"
    by (simp add: attemptReconnect_def)
  have row: "ws_inv h \<and> reconnectAttempts h = 0 \<and> timers h = [] \<and> socket h = Some OPEN \<longrightarrow>
        timeouts (run (failed_attempts n) h) =
          timeouts h @ map (\<lambda>k. 1000 * 2 ^ (k - 1)) [1 ..< Suc (min n 5)]
        \<and> reconnectAttempts (run (failed_attempts n) h) = min n 5"
  proof
    assume a: "ws_inv h \<and> reconnectAttempts h = 0 \<and> timers h = [] \<and> socket h = Some OPEN"
    then have "timers h = []" "socket h = Some OPEN \<or> socket h = Some CONNECTING"
      "reconnectAttempts h \<le> maxReconnectAttempts h"
      by simp_all
    from failed_attempts_timeouts [OF this, of n] a
    show "timeouts (run (failed_attempts n) h) =
          timeouts h @ map (\<lambda>k. 1000 * 2 ^ (k - 1)) [1 ..< Suc (min n 5)]
        \<and> reconnectAttempts (run (failed_attempts n) h) = min n 5"
      by (simp add: ws_inv_def delays_from_one del: upt_Suc)
  qed
  have opens: "socket h = Some CONNECTING \<longrightarrow>
        reconnectAttempts (step Opens h) = 0
        \<and> sent (step Opens h) = sent h @ [Subscribe ''generation_progress'']"
    by (simp add: onopen_def send_def)
  have reset: "reconnectAttempts (onopen h) = 0"
    by (simp add: onopen_def send_def)
  from inv below at_limit row opens reset show ?thesis by blast
qed

theorem bounded_exponential_reconnect_witness:
  "ws_inv (run [CallConnect True, Opens, Closes, TimerFires 0 False] new_handler)
   \<and> timeouts (run (failed_attempts 7) connected_handler) = [1000, 2000, 4000, 8000, 16000]
   \<and> reconnectAttempts (run (failed_attempts 7) connected_handler) = 5
   \<and> attemptReconnect (run (failed_attempts 7) connected_handler) = run (failed_attempts 7) connected_handler
   \<and> timeouts (attemptReconnect connected_handler) = [1000]
   \<and> sent (step Opens (run [CallConnect True] new_handler)) = [Subscribe ''generation_progress'']"
proof -
  let ?h = "run (failed_attempts 7) connected_handler"
  note thm1 = bounded_exponential_reconnect
      [of "[CallConnect True, Opens, Closes, TimerFires 0 False]" connected_handler 7]
  note thm2 = bounded_exponential_reconnect [of "[CallConnect True, Opens] @ failed_attempts 7" ?h 0]
  note thm3 = bounded_exponential_reconnect [of "[]" "run [CallConnect True] new_handler" 0]
  have c: "ws_inv connected_handler \<and> reconnectAttempts connected_handler = 0
      \<and> timers connected_handler = [] \<and> socket connected_handler = Some OPEN"
    by (simp add: connected_handler_eq ws_inv_def new_handler_def)
  have zero: "timeouts connected_handler = []" "reconnectDelay connected_handler = 1000"
    "reconnectAttempts connected_handler < maxReconnectAttempts connected_handler"
    by (simp_all add: connected_handler_eq new_handler_def)
  have conn: "socket (run [CallConnect True] new_handler) = Some CONNECTING"
    "sent (run [CallConnect True] new_handler) = []"
    by (simp_all add: run_def connect_def new_handler_def)
  have inv: "ws_inv (run [CallConnect True, Opens, Closes, TimerFires 0 False] new_handler)"
    using thm1 by blast
  have row: "timeouts ?h = [1000, 2000, 4000, 8000, 16000]" "reconnectAttempts ?h = 5"
    using thm1 c zero(1) five_delays by simp_all
  have "ws_inv ?h"
    using thm2 unfolding run_append connected_handler_def by blast
  then have "reconnectAttempts ?h \<ge> maxReconnectAttempts ?h"
    using row(2) by (simp add: ws_inv_def)
  then have stop: "attemptReconnect ?h = ?h"
    using thm2 by blast
  have first: "timeouts (attemptReconnect connected_handler) = [1000]"
    using thm1 zero c by simp
  have sub: "sent (step Opens (run [CallConnect True] new_handler)) = [Subscribe ''generation_progress'']"
    using thm3 conn by simp
  from inv row stop first sub show ?thesis by simp
qed

section \<open>Refinement in the session engine\<close>

lemma ball_session_reached:
  "completed \<lparr>res_imageRef = ''gen_001'', res_seedUsed = 42, res_durationMs = 18500\<rparr> 0
     (snd (generateNew ''a blue ball on green grass''
        usual_new empty_session)) = ball_session"
  by (simp add: completed_def generateNew_def empty_session_def ball_session_def ball_record_def
      usual_new_def text_ok_def steps_ok_def guidance_ok_def)

lemma ball_current: "current ball_session = Some ball_record"
  by (simp add: current_def get_def ball_session_def ball_record_def)

lemma ball_refine:
  "refine default_rule ''add a hat'' usual_refine ball_session =
     (Inr (ImageToImage ''gen_001'' ''a blue ball on green grass, add a hat'' 0.6 28 3.5 42),
      ball_session\<lparr>generating := Some \<lparr>job_kind = REFINEMENT,
         job_prompt = ''a blue ball on green grass, add a hat'',
         job_modification = Some ''add a hat'', job_parentId = Some 0, job_seed = Some 42,
         job_steps = 28, job_guidanceScale = 3.5, job_strength = Some 0.6\<rparr>\<rparr>)"
proof -
  have "generating ball_session = None"
    by (simp add: ball_session_def)
  then show ?thesis
    by (simp add: refine_def ball_current Let_def usual_refine_def default_rule_def
        text_ok_def steps_ok_def guidance_ok_def strength_ok_def)
       (simp add: ball_session_def ball_record_def)
qed

text \<open>
  C1. A refine call that is accepted hands the collaborator the seed of the current
  record, and the record appended when the collaborator is done is a REFINEMENT with the
  current record as its parent and with the parent's seed. The operation has no seed
  parameter, and the request the API client writes for it has no \<open>seed\<close> key, whatever
  seed the parameters of the application hold.
\<close>

theorem refinement_keeps_seed:
  "(refine rw m p st = (Inr c, st') \<longrightarrow>
      (\<exists>cur. current st = Some cur
         \<and> c = ImageToImage (rec_imageRef cur) (rw (rec_prompt cur) m) (ref_strength p)
                 (ref_steps p) (ref_guidanceScale p) (rec_seed cur)
         \<and> records (completed res now st') = records st @ [last (records (completed res now st'))]
         \<and> rec_kind (last (records (completed res now st'))) = REFINEMENT
         \<and> rec_parentId (last (records (completed res now st'))) = Some (rec_id cur)
         \<and> rec_seed (last (records (completed res now st'))) = rec_seed cur
         \<and> currentId (completed res now st') = Some (rec_id (last (records (completed res now st'))))))
   \<and> sent_field (api_refine m' q) ''seed'' = None"
proof -
  have "sent_field (api_refine m' q) ''seed'' = None"
    by (simp add: sent_field_refine refine_body_fields)
  moreover have "refine rw m p st = (Inr c, st') \<longrightarrow>
      (\<exists>cur. current st = Some cur
         \<and> c = ImageToImage (rec_imageRef cur) (rw (rec_prompt cur) m) (ref_strength p)
                 (ref_steps p) (ref_guidanceScale p) (rec_seed cur)
         \<and> records (completed res now st') = records st @ [last (records (completed res now st'))]
         \<and> rec_kind (last (records (completed res now st'))) = REFINEMENT
         \<and> rec_parentId (last (records (completed res now st'))) = Some (rec_id cur)
         \<and> rec_seed (last (records (completed res now st'))) = rec_seed cur
         \<and> currentId (completed res now st') = Some (rec_id (last (records (completed res now st')))))"
  proof
    assume r: "refine rw m p st = (Inr c, st')"
    then obtain cur where cur: "current st = Some cur"
      by (cases "current st") (simp_all add: refine_def split: if_splits)
    from r cur have c: "c = ImageToImage (rec_imageRef cur) (rw (rec_prompt cur) m) (ref_strength p)
                 (ref_steps p) (ref_guidanceScale p) (rec_seed cur)"
      and st': "st' = st\<lparr>generating := Some \<lparr>job_kind = REFINEMENT, job_prompt = rw (rec_prompt cur) m,
                  job_modification = Some m, job_parentId = Some (rec_id cur),
                  job_seed = Some (rec_seed cur), job_steps = ref_steps p,
                  job_guidanceScale = ref_guidanceScale p,
                  job_strength = Some (ref_strength p)\<rparr>\<rparr>"
      by (auto simp: refine_def Let_def split: if_splits)
    show "\<exists>cur. current st = Some cur
         \<and> c = ImageToImage (rec_imageRef cur) (rw (rec_prompt cur) m) (ref_strength p)
                 (ref_steps p) (ref_guidanceScale p) (rec_seed cur)
         \<and> records (completed res now st') = records st @ [last (records (completed res now st'))]
         \<and> rec_kind (last (records (completed res now st'))) = REFINEMENT
         \<and> rec_parentId (last (records (completed res now st'))) = Some (rec_id cur)
         \<and> rec_seed (last (records (completed res now st'))) = rec_seed cur
         \<and> currentId (completed res now st') = Some (rec_id (last (records (completed res now st'))))"
      using cur c by (intro exI [of _ cur]) (simp add: st' completed_def Let_def)
  qed
  ultimately show ?thesis by blast
qed

theorem refinement_keeps_seed_witness:
  "refine default_rule ''add a hat'' usual_refine ball_session =
     (Inr (ImageToImage ''gen_001'' ''a blue ball on green grass, add a hat'' 0.6 28 3.5 42),
      ball_session\<lparr>generating := Some \<lparr>job_kind = REFINEMENT,
         job_prompt = ''a blue ball on green grass, add a hat'',
         job_modification = Some ''add a hat'', job_parentId = Some 0, job_seed = Some 42,
         job_steps = 28, job_guidanceScale = 3.5, job_strength = Some 0.6\<rparr>\<rparr>)
   \<and> rec_seed (last (records (completed red_result 1
        (snd (refine default_rule ''add a hat'' usual_refine ball_session))))) = 42
   \<and> rec_parentId (last (records (completed red_result 1
        (snd (refine default_rule ''add a hat'' usual_refine ball_session))))) = Some 0
   \<and> sent_field (api_refine ''add a hat'' (default_params\<lparr>seed := JNum 7\<rparr>)) ''seed'' = None"
  using refinement_keeps_seed [of default_rule "''add a hat''" usual_refine ball_session _ _ red_result 1
      "''add a hat''" "default_params\<lparr>seed := JNum 7\<rparr>"]
    ball_refine ball_current
  by (simp add: ball_record_def)




text \<open>
  The current image of the application is its own copy: an answer of the server without
  a current image leaves it as it was, so it can outlive the record it was copied from.
\<close>

lemma stale_current_image_kept:
  "currentImage (loadSession_settled (Some None) gens a) = currentImage a"
  "getCurrent empty_session = None"
  by (cases gens; simp add: loadSession_settled_def getCurrent_def current_def empty_session_def)+




section \<open>The examples of the prompt rewriter\<close>

lemma rewrite_ball_red: "rewrite later ''a blue ball on green grass'' ''make the ball red'' = ''a red ball on green grass''"
  by code_simp

lemma rewrite_add_hat: "rewrite later ''a cat'' ''add a hat'' = ''a cat, a hat''"
  by code_simp

lemma color_rule_ball_red:
  "color_rule ''a blue ball on green grass'' ''make the ball red'' = Some ''a red ball on green grass''"
  by code_simp

lemma rules_add_hat:
  "color_rule ''a cat'' ''add a hat'' = None
   \<and> addition_rule ''a cat'' ''add a hat'' = Some ''a cat, a hat''"
  by code_simp

text \<open>
  C6. The two examples of the specification: the colour rule turns the blue ball red and
  leaves the green grass alone; the colour rule does not match \<open>add a hat\<close>, and the
  addition rule appends the hat as a new clause. The later rules play no part.
\<close>

theorem rewrite_examples:
  "rewrite later ''a blue ball on green grass'' ''make the ball red'' = ''a red ball on green grass''
   \<and> color_rule ''a blue ball on green grass'' ''make the ball red'' = Some ''a red ball on green grass''
   \<and> rewrite later ''a cat'' ''add a hat'' = ''a cat, a hat''
   \<and> color_rule ''a cat'' ''add a hat'' = None
   \<and> addition_rule ''a cat'' ''add a hat'' = Some ''a cat, a hat''"
  using rewrite_ball_red rewrite_add_hat color_rule_ball_red rules_add_hat by simp

end
